theory Spec2Isabelle
  imports Main
begin

section \<open>JavaScript values\<close>

text \<open>
  The handlers read request bodies, decoded token payloads and database replies as
  untyped JavaScript values, and several of their branches depend on truthiness and on
  reading a property that is not there. The values are therefore modelled as such.
  Numbers are restricted to integers.
\<close>

datatype jsval =
    JUndefined
  | JNull
  | JBool bool
  | JNum int
  | JStr string
  | JArr "jsval list"
  | JObj "(string \<times> jsval) list"

text \<open>\<^verbatim>\<open>!!v\<close>: undefined, null, false, 0 and the empty string are falsy.\<close>

fun truthy :: "jsval \<Rightarrow> bool" where
  "truthy JUndefined = False"
| "truthy JNull = False"
| "truthy (JBool b) = b"
| "truthy (JNum n) = (n \<noteq> 0)"
| "truthy (JStr s) = (s \<noteq> [])"
| "truthy (JArr xs) = True"
| "truthy (JObj kvs) = True"

text \<open>\<^verbatim>\<open>a || b\<close>\<close>

definition js_or :: "jsval \<Rightarrow> jsval \<Rightarrow> jsval" where
  "js_or a b = (if truthy a then a else b)"

text \<open>\<^verbatim>\<open>v === undefined || v === null\<close>, the test of optional chaining.\<close>

fun nullish :: "jsval \<Rightarrow> bool" where
  "nullish JUndefined = True"
| "nullish JNull = True"
| "nullish v = False"

text \<open>
  \<^verbatim>\<open>v.k\<close> on a value that is neither undefined nor null: an object yields the field or
  undefined, an array and a string know only \<^verbatim>\<open>length\<close> among the names used here.
  On undefined and null JavaScript throws; every call site below is either guarded
  against that or models the throw itself.
\<close>

fun get_prop :: "string \<Rightarrow> jsval \<Rightarrow> jsval" where
  "get_prop k (JObj kvs) = (case map_of kvs k of Some v \<Rightarrow> v | None \<Rightarrow> JUndefined)"
| "get_prop k (JArr xs) = (if k = ''length'' then JNum (int (length xs)) else JUndefined)"
| "get_prop k (JStr s) = (if k = ''length'' then JNum (int (length s)) else JUndefined)"
| "get_prop k v = JUndefined"

text \<open>\<^verbatim>\<open>v[i]\<close> on a value that is neither undefined nor null.\<close>

fun at_index :: "nat \<Rightarrow> jsval \<Rightarrow> jsval" where
  "at_index i (JArr xs) = (if i < length xs then xs ! i else JUndefined)"
| "at_index i v = JUndefined"

text \<open>\<^verbatim>\<open>v?.k\<close> and \<^verbatim>\<open>v?.[i]\<close>\<close>

definition opt_prop :: "string \<Rightarrow> jsval \<Rightarrow> jsval" where
  "opt_prop k v = (if nullish v then JUndefined else get_prop k v)"

definition opt_index :: "nat \<Rightarrow> jsval \<Rightarrow> jsval" where
  "opt_index i v = (if nullish v then JUndefined else at_index i v)"

fun is_number :: "jsval \<Rightarrow> bool" where
  "is_number (JNum n) = True"
| "is_number v = False"

fun is_array :: "jsval \<Rightarrow> bool" where
  "is_array (JArr xs) = True"
| "is_array v = False"

text \<open>
  \<^verbatim>\<open>xs.includes(v)\<close>. The arrays searched below hold string literals only, for which
  the comparison of \<^verbatim>\<open>includes\<close> is equality of values.
\<close>

definition array_includes :: "jsval list \<Rightarrow> jsval \<Rightarrow> bool" where
  "array_includes xs v = (v \<in> set xs)"

section \<open>Responses\<close>

text \<open>
  A response is a status code (\<^verbatim>\<open>res.status(n).send\<close>, \<^verbatim>\<open>.json\<close>,
  \<^verbatim>\<open>res.sendStatus\<close>), a redirect, or a redirect carrying one query parameter
  (its name and its text before URL encoding).
\<close>

datatype response =
    Status nat
  | Redirect string
  | RedirectQuery string string string

section \<open>middleware/requireRole.js\<close>

text \<open>The result \<open>None\<close> is the call of \<^verbatim>\<open>next()\<close>.\<close>

definition requireRole :: "jsval list \<Rightarrow> jsval \<Rightarrow> response option" where
  "requireRole allowedRoles user =
     (if \<not> truthy user then Some (Status 401)
      else let userRole = js_or (get_prop ''role'' user) (get_prop ''department'' user)
           in if \<not> array_includes allowedRoles userRole then Some (Status 403)
              else None)"

section \<open>Token selection and verification\<close>

text \<open>\<^verbatim>\<open>s.split(c)\<close> for a separator of one character; the result is never empty.\<close>

fun split_on :: "char \<Rightarrow> string \<Rightarrow> string list" where
  "split_on c [] = [[]]"
| "split_on c (x # xs) =
     (if x = c then [] # split_on c xs
      else (case split_on c xs of
              [] \<Rightarrow> [[x]]
            | w # ws \<Rightarrow> (x # w) # ws))"

definition startsWith :: "string \<Rightarrow> string \<Rightarrow> bool" where
  "startsWith s p = (take (length p) s = p)"

text \<open>\<^verbatim>\<open>xs[i]\<close> on an array of strings: \<open>None\<close> is undefined.\<close>

definition nth_opt :: "'a list \<Rightarrow> nat \<Rightarrow> 'a option" where
  "nth_opt xs i = (if i < length xs then Some (xs ! i) else None)"

text \<open>A header or cookie value is a string or absent; the empty string is falsy.\<close>

fun present :: "string option \<Rightarrow> bool" where
  "present None = False"
| "present (Some s) = (s \<noteq> [])"

text \<open>
  \<^verbatim>\<open>jwt.verify\<close> belongs to a library: it is the parameter \<open>verify\<close>, which yields the
  decoded payload of a token it accepts. The second component of the error tells the
  two rejections apart where the status code does not.
\<close>

datatype rejection = NoToken | BadToken

definition check_token ::
  "(string \<Rightarrow> jsval option) \<Rightarrow> nat \<Rightarrow> string option \<Rightarrow> (response \<times> rejection) + jsval" where
  "check_token verify bad_status token =
     (if \<not> present token then Inl (Status 401, NoToken)
      else (case verify (the token) of
              None \<Rightarrow> Inl (Status bad_status, BadToken)
            | Some user \<Rightarrow> Inr user))"

subsection \<open>middleware/authenticateJWT.js: the header first\<close>

definition select_token_middleware :: "string option \<Rightarrow> string option \<Rightarrow> string option" where
  "select_token_middleware authorization cookie_token =
     (let token = (if present authorization \<and> startsWith (the authorization) ''Bearer ''
                   then nth_opt (split_on CHR '' '' (the authorization)) 1
                   else None)
      in if \<not> present token \<and> present cookie_token then cookie_token else token)"

definition authenticateJWT_middleware ::
  "(string \<Rightarrow> jsval option) \<Rightarrow> string option \<Rightarrow> string option \<Rightarrow> (response \<times> rejection) + jsval" where
  "authenticateJWT_middleware verify authorization cookie_token =
     check_token verify 403 (select_token_middleware authorization cookie_token)"

subsection \<open>routes/technician.js: the cookie first\<close>

definition select_token_technician :: "string option \<Rightarrow> string option \<Rightarrow> string option" where
  "select_token_technician authorization cookie_token =
     (let token = cookie_token
      in if \<not> present token \<and> present authorization
         then (if startsWith (the authorization) ''Bearer ''
               then nth_opt (split_on CHR '' '' (the authorization)) 1
               else token)
         else token)"

definition authenticateJWT_technician ::
  "(string \<Rightarrow> jsval option) \<Rightarrow> string option \<Rightarrow> string option \<Rightarrow> (response \<times> rejection) + jsval" where
  "authenticateJWT_technician verify authorization cookie_token =
     check_token verify 401 (select_token_technician authorization cookie_token)"

subsection \<open>app.js: the cookie first, the answer negotiated\<close>

text \<open>
  The header is a string whenever it is present, so the test
  \<^verbatim>\<open>typeof authHeader === 'string'\<close> adds nothing to the selection of
  \<^verbatim>\<open>routes/technician.js\<close>. \<open>wants_json\<close> stands for the first four tests of
  \<^verbatim>\<open>expectsJson\<close>, which read other headers.
\<close>

definition select_token_app :: "string option \<Rightarrow> string option \<Rightarrow> string option" where
  "select_token_app authorization cookie_token =
     (let token = cookie_token
      in if \<not> present token \<and> present authorization
         then (if startsWith (the authorization) ''Bearer ''
               then nth_opt (split_on CHR '' '' (the authorization)) 1
               else token)
         else token)"

definition expectsJson :: "bool \<Rightarrow> string option \<Rightarrow> bool" where
  "expectsJson wants_json authorization = (wants_json \<or> present authorization)"

definition authenticateJWT_app ::
  "(string \<Rightarrow> jsval option) \<Rightarrow> bool \<Rightarrow> string option \<Rightarrow> string option \<Rightarrow> response + jsval" where
  "authenticateJWT_app verify wants_json authorization cookie_token =
     (let token = select_token_app authorization cookie_token
      in if \<not> present token
         then (if expectsJson wants_json authorization then Inl (Status 401)
               else Inl (Redirect ''/login''))
         else (case verify (the token) of
                 None \<Rightarrow> (if expectsJson wants_json authorization then Inl (Status 401)
                          else Inl (Redirect ''/login''))
               | Some user \<Rightarrow> Inr user))"

section \<open>sendNotificationToUser\<close>

text \<open>
  The helper is copied into \<^verbatim>\<open>routes/ticket.js\<close>, \<^verbatim>\<open>routes/planner.js\<close>,
  \<^verbatim>\<open>routes/technician.js\<close> and \<^verbatim>\<open>routes/admin.js\<close> with the same body. The shared
  table \<^verbatim>\<open>subscriptionsPerUser\<close> is the parameter \<open>subscriptionsPerUser\<close>, a map from
  the key to the stored array. \<^verbatim>\<open>webPush.sendNotification\<close> belongs to a library: it
  is the parameter \<open>push\<close>, which delivers or fails with a reason.
\<close>

record subscription =
  endpoint :: string
  deliveryKeys :: string

datatype push_outcome = Delivered | Failed string

record dispatch_log =
  attempts :: "(subscription \<times> string) list"
  warnings :: "(string \<times> string) list"

text \<open>One round of the loop: the \<^verbatim>\<open>try\<close> block, then the \<^verbatim>\<open>catch\<close> that only logs.\<close>

definition attempt_delivery ::
  "(subscription \<Rightarrow> string \<Rightarrow> push_outcome) \<Rightarrow> string \<Rightarrow> string \<Rightarrow> subscription \<Rightarrow>
   dispatch_log \<Rightarrow> dispatch_log" where
  "attempt_delivery push message targetGlobalId sub log =
     (let tried = log\<lparr>attempts := attempts log @ [(sub, message)]\<rparr>
      in (case push sub message of
            Delivered \<Rightarrow> tried
          | Failed err \<Rightarrow> tried\<lparr>warnings := warnings tried @ [(targetGlobalId, err)]\<rparr>))"

fun deliver_each ::
  "(subscription \<Rightarrow> string \<Rightarrow> push_outcome) \<Rightarrow> string \<Rightarrow> string \<Rightarrow> subscription list \<Rightarrow>
   dispatch_log \<Rightarrow> dispatch_log" where
  "deliver_each push message targetGlobalId [] log = log"
| "deliver_each push message targetGlobalId (sub # userSubs) log =
     deliver_each push message targetGlobalId userSubs
       (attempt_delivery push message targetGlobalId sub log)"

text \<open>
  The result is a sum so that a rejected promise would be a value \<open>Inl\<close>; the body has
  no path that produces one.
\<close>

definition sendNotificationToUser ::
  "(subscription \<Rightarrow> string \<Rightarrow> push_outcome) \<Rightarrow> (string \<rightharpoonup> subscription list) \<Rightarrow>
   string \<Rightarrow> string \<Rightarrow> string + dispatch_log" where
  "sendNotificationToUser push subscriptionsPerUser message targetGlobalId =
     (let userSubs = (case subscriptionsPerUser targetGlobalId of
                        Some subs \<Rightarrow> subs
                      | None \<Rightarrow> [])
      in Inr (deliver_each push message targetGlobalId userSubs
                \<lparr>attempts = [], warnings = []\<rparr>))"

section \<open>The ticket table\<close>

text \<open>
  The four literals the handlers write into the column \<^verbatim>\<open>status\<close>:
  \<^verbatim>\<open>'Open'\<close>, \<^verbatim>\<open>'Assigned'\<close>, \<^verbatim>\<open>'In Progress'\<close>, \<^verbatim>\<open>'Completed'\<close>.
\<close>

datatype status = Open | Assigned | InProgress | Completed

text \<open>
  A row of \<^verbatim>\<open>tickets\<close>, with the columns the statements name. A column holding a
  request value is a \<open>jsval\<close>, where \<open>JNull\<close> is SQL's NULL; a time column is
  a clock reading or NULL.
\<close>

record ticket =
  ticket_id :: nat
  global_id :: jsval
  raised_by :: jsval
  category :: jsval
  description :: jsval
  building_no :: jsval
  area_code :: jsval
  sub_area :: jsval
  keyword :: jsval
  location :: jsval
  status :: status
  assigned_to :: jsval
  planner_id :: jsval
  completion_note :: jsval
  created_at :: nat
  updated_at :: nat
  started_at :: "nat option"
  completed_at :: "nat option"

text \<open>
  Modelled from the spec: the store itself (the schema and the server that runs the
  statements) is not part of the sources. It is a table of rows whose \<^verbatim>\<open>id\<close> is
  assigned by the store in increasing order, and which answers a query or fails as a
  whole while it is not reachable.
\<close>

record database =
  tickets :: "ticket list"
  next_id :: nat
  online :: bool

subsection \<open>db.js\<close>

text \<open>
  \<^verbatim>\<open>String(val)\<close>, as the binding below applies it. A number is its decimal numeral
  (integers of ordinary size: no exponent form), an array is its elements joined by
  commas, where undefined and null give the empty string, and an object is
  \<^verbatim>\<open>[object Object]\<close>.
\<close>

definition digit_char :: "nat \<Rightarrow> char" where
  "digit_char d = ''0123456789'' ! d"

function decimal :: "nat \<Rightarrow> string" where
  "decimal n = (if n < 10 then [digit_char n] else decimal (n div 10) @ [digit_char (n mod 10)])"
  by pat_completeness auto
termination
  by (relation "measure (\<lambda>n. n)") auto

declare decimal.simps [simp del]

fun join_comma :: "string list \<Rightarrow> string" where
  "join_comma [] = []"
| "join_comma [x] = x"
| "join_comma (x # y # ys) = x @ '','' @ join_comma (y # ys)"

fun js_String :: "jsval \<Rightarrow> string" where
  "js_String JUndefined = ''undefined''"
| "js_String JNull = ''null''"
| "js_String (JBool b) = (if b then ''true'' else ''false'')"
| "js_String (JNum n) = (if n < 0 then CHR ''-'' # decimal (nat (- n)) else decimal (nat n))"
| "js_String (JStr s) = s"
| "js_String (JArr xs) = join_comma (map (\<lambda>v. if nullish v then [] else js_String v) xs)"
| "js_String (JObj kvs) = ''[object Object]''"

text \<open>
  The binding of one positional parameter in \<^verbatim>\<open>query\<close>: null and undefined are bound
  as NULL, an integer as itself, a boolean as the bit 1 or 0, anything else (a string,
  an array, an object) as the text \<^verbatim>\<open>String(val)\<close>.
\<close>

fun bind_param :: "jsval \<Rightarrow> jsval" where
  "bind_param JUndefined = JNull"
| "bind_param JNull = JNull"
| "bind_param (JNum n) = JNum n"
| "bind_param (JBool b) = JNum (if b then 1 else 0)"
| "bind_param v = JStr (js_String v)"

text \<open>
  The store's test \<^verbatim>\<open>column = ?\<close> on a text column such as \<^verbatim>\<open>location\<close>. The SQL
  server is not part of the sources: NULL equals nothing, and the column matches the
  parameter whose bound value it holds (collations are left out).
\<close>

definition sql_eq :: "jsval \<Rightarrow> jsval \<Rightarrow> bool" where
  "sql_eq column param = (column \<noteq> JNull \<and> bind_param param \<noteq> JNull \<and> column = bind_param param)"

text \<open>
  The store's test \<^verbatim>\<open>id = ?\<close> on the numeric column \<^verbatim>\<open>id\<close>. A form posts the id as
  text, a JSON body as a number: the row matches a bound number equal to its id and a
  bound string that is the decimal numeral of its id.
\<close>

definition sql_eq_id :: "nat \<Rightarrow> jsval \<Rightarrow> bool" where
  "sql_eq_id column param =
     (case bind_param param of
        JNum n \<Rightarrow> n = int column
      | JStr s \<Rightarrow> s = decimal column
      | _ \<Rightarrow> False)"

text \<open>
  The result object of the library \<^verbatim>\<open>mssql\<close>, of which the sources read
  \<^verbatim>\<open>recordset\<close> and \<^verbatim>\<open>rowsAffected\<close>: a statement that selects nothing has no
  record set.
\<close>

definition mssql_result :: "jsval list \<Rightarrow> nat \<Rightarrow> jsval" where
  "mssql_result recordsets n =
     JObj [(''recordsets'', JArr recordsets),
           (''recordset'', at_index 0 (JArr recordsets)),
           (''output'', JObj []),
           (''rowsAffected'', JArr [JNum (int n)])]"

datatype db_error = ConnectionError

text \<open>
  \<^verbatim>\<open>query(sqlText, params)\<close>: the statement, with its parameters bound, is the function
  \<open>statement\<close>; the answer is the two-element array
  \<^verbatim>\<open>[result.recordset, result]\<close>.
\<close>

definition query ::
  "(database \<Rightarrow> jsval \<times> database) \<Rightarrow> database \<Rightarrow> db_error + (jsval \<times> database)" where
  "query statement db =
     (if \<not> online db then Inl ConnectionError
      else (let (result, db') = statement db
            in Inr (JArr [get_prop ''recordset'' result, result], db')))"

subsection \<open>The statements\<close>

text \<open>\<^verbatim>\<open>UPDATE tickets SET ... WHERE ...\<close>\<close>

definition update_tickets ::
  "(ticket \<Rightarrow> bool) \<Rightarrow> (ticket \<Rightarrow> ticket) \<Rightarrow> database \<Rightarrow> jsval \<times> database" where
  "update_tickets wh st db =
     (mssql_result [] (length (filter wh (tickets db))),
      db\<lparr>tickets := map (\<lambda>t. if wh t then st t else t) (tickets db)\<rparr>)"

text \<open>\<^verbatim>\<open>WHERE id = ?\<close> and \<^verbatim>\<open>WHERE id = ? AND location = ?\<close>\<close>

definition where_id :: "jsval \<Rightarrow> ticket \<Rightarrow> bool" where
  "where_id ticketId t = sql_eq_id (ticket_id t) ticketId"

definition where_id_location :: "jsval \<Rightarrow> jsval \<Rightarrow> ticket \<Rightarrow> bool" where
  "where_id_location ticketId userLocation t =
     (sql_eq_id (ticket_id t) ticketId \<and> sql_eq (location t) userLocation)"

text \<open>\<^verbatim>\<open>SELECT global_id FROM tickets WHERE id = ?\<close>\<close>

definition select_global_id :: "jsval \<Rightarrow> database \<Rightarrow> jsval \<times> database" where
  "select_global_id ticketId db =
     (let rows = map (\<lambda>t. JObj [(''global_id'', global_id t)])
                     (filter (where_id ticketId) (tickets db))
      in (mssql_result [JArr rows] (length rows), db))"

text \<open>
  \<^verbatim>\<open>INSERT INTO tickets (...) VALUES (?, ?, ?, ?, ?, ?, ?, ?, ?, 'Open', GETDATE(), GETDATE())\<close>.
  The columns the statement does not name are NULL in the new row.
\<close>

definition insert_ticket ::
  "nat \<Rightarrow> jsval \<Rightarrow> jsval \<Rightarrow> jsval \<Rightarrow> jsval \<Rightarrow> jsval \<Rightarrow> jsval \<Rightarrow> jsval \<Rightarrow> jsval \<Rightarrow> jsval \<Rightarrow>
   database \<Rightarrow> jsval \<times> database" where
  "insert_ticket now p1 p2 p3 p4 p5 p6 p7 p8 p9 db =
     (mssql_result [] 1,
      db\<lparr>tickets := tickets db @
            [\<lparr>ticket_id = next_id db,
              global_id = bind_param p1,
              raised_by = bind_param p2,
              category = bind_param p3,
              description = bind_param p4,
              building_no = bind_param p5,
              area_code = bind_param p6,
              sub_area = bind_param p7,
              keyword = bind_param p8,
              location = bind_param p9,
              status = Open,
              assigned_to = JNull,
              planner_id = JNull,
              completion_note = JNull,
              created_at = now,
              updated_at = now,
              started_at = None,
              completed_at = None\<rparr>],
         next_id := Suc (next_id db)\<rparr>)"

text \<open>The \<^verbatim>\<open>SET\<close> lists of the four updates.\<close>

definition set_assigned :: "nat \<Rightarrow> jsval \<Rightarrow> jsval \<Rightarrow> ticket \<Rightarrow> ticket" where
  "set_assigned now executerId assignerGlobalId t =
     t\<lparr>assigned_to := bind_param executerId, planner_id := bind_param assignerGlobalId,
       status := Assigned, updated_at := now\<rparr>"

definition set_completed_plain :: "nat \<Rightarrow> ticket \<Rightarrow> ticket" where
  "set_completed_plain now t = t\<lparr>status := Completed, updated_at := now\<rparr>"

definition set_started :: "nat \<Rightarrow> ticket \<Rightarrow> ticket" where
  "set_started now t = t\<lparr>status := InProgress, started_at := Some now, updated_at := now\<rparr>"

definition set_completed_noted :: "nat \<Rightarrow> jsval \<Rightarrow> ticket \<Rightarrow> ticket" where
  "set_completed_noted now note t =
     t\<lparr>status := Completed, completion_note := bind_param note, updated_at := now,
       completed_at := Some now\<rparr>"

section \<open>The handlers\<close>

text \<open>
  A handler takes the clock reading that \<^verbatim>\<open>GETDATE()\<close> returns, the decoded payload
  \<^verbatim>\<open>req.user\<close>, the fields of \<^verbatim>\<open>req.body\<close> (an object, since the body parsers
  are installed) and the store. It yields the response, the store afterwards, and the
  notification it hands to \<^verbatim>\<open>sendNotificationToUser\<close>, if any: what the message
  says and the target.
\<close>

datatype notice =
    TicketSubmitted
  | TicketAssigned jsval
  | TicketMarkedCompleted jsval
  | TicketStarted jsval
  | TicketCompletedByTechnician jsval

type_synonym outcome = "response \<times> database \<times> (notice \<times> jsval) option"

definition body_field :: "string \<Rightarrow> (string \<times> jsval) list \<Rightarrow> jsval" where
  "body_field k body = get_prop k (JObj body)"

subsection \<open>routes/ticket.js\<close>

text \<open>The two lines under the comment \<^verbatim>\<open>Normalize category\<close>.\<close>

definition normalize_category :: "jsval \<Rightarrow> jsval" where
  "normalize_category =
     (\<lambda>category.
        if category = JStr ''Facility'' \<or> category = JStr ''Facility Service''
        then JStr ''Facility Service''
        else if \<not> truthy category then JStr ''Other''
        else category)"

definition ticket_submit :: "nat \<Rightarrow> jsval \<Rightarrow> (string \<times> jsval) list \<Rightarrow> database \<Rightarrow> outcome" where
  "ticket_submit now user body db =
     (if \<not> truthy (opt_prop ''globalId'' user) then (Status 401, db, None)
      else
        let category = normalize_category (body_field ''category'' body);
            description = body_field ''description'' body;
            building_no = body_field ''building_no'' body;
            area_code = body_field ''area_code'' body;
            sub_area = body_field ''sub_area'' body;
            keyword = body_field ''keyword'' body
        in if category = JStr ''Facility Service'' \<and>
              (\<not> truthy building_no \<or> \<not> truthy area_code \<or> \<not> truthy sub_area \<or> \<not> truthy keyword)
           then (RedirectQuery ''/dashboard/user'' ''error''
                   ''Missing required Facility Service fields.'', db, None)
           else
             (case query (insert_ticket now
                            (get_prop ''globalId'' user)
                            (js_or (get_prop ''name'' user) JNull)
                            category
                            (js_or description JNull)
                            (js_or building_no JNull)
                            (js_or area_code JNull)
                            (js_or sub_area JNull)
                            (js_or keyword JNull)
                            (js_or (get_prop ''location'' user) JNull)) db of
                Inl err \<Rightarrow>
                  (RedirectQuery ''/dashboard/user'' ''error'' ''Failed to submit ticket.'', db, None)
              | Inr (result, db') \<Rightarrow>
                  (RedirectQuery ''/dashboard/user'' ''message'' ''Ticket submitted successfully.'',
                   db', Some (TicketSubmitted, get_prop ''globalId'' user))))"

definition ticket_assign :: "nat \<Rightarrow> jsval \<Rightarrow> (string \<times> jsval) list \<Rightarrow> database \<Rightarrow> outcome" where
  "ticket_assign now user body db =
     (let ticketId = body_field ''ticketId'' body;
          executerId = body_field ''executerId'' body;
          assignerGlobalId = opt_prop ''globalId'' user
      in if \<not> truthy ticketId \<or> \<not> truthy executerId then (Status 400, db, None)
         else
           (case query (update_tickets (where_id ticketId)
                          (set_assigned now executerId assignerGlobalId)) db of
              Inl err \<Rightarrow> (Status 500, db, None)
            | Inr (result, db') \<Rightarrow>
                if truthy (get_prop ''rowsAffected'' result) \<and>
                   at_index 0 (get_prop ''rowsAffected'' result) = JNum 0
                then (Status 404, db', None)
                else (Redirect ''/dashboard/planner'', db',
                      Some (TicketAssigned ticketId, executerId))))"

text \<open>
  In \<^verbatim>\<open>/ticket/complete\<close> the read \<^verbatim>\<open>ticketRows[0].global_id\<close> is not guarded: it
  throws when \<^verbatim>\<open>ticketRows[0]\<close> is undefined or null, and the \<^verbatim>\<open>catch\<close> answers 500.
\<close>

definition ticket_complete :: "nat \<Rightarrow> jsval \<Rightarrow> (string \<times> jsval) list \<Rightarrow> database \<Rightarrow> outcome" where
  "ticket_complete now user body db =
     (let ticketId = body_field ''ticketId'' body
      in if \<not> truthy ticketId then (Status 400, db, None)
         else
           (case query (select_global_id ticketId) db of
              Inl err \<Rightarrow> (Status 500, db, None)
            | Inr (result, db1) \<Rightarrow>
                let ticketRows = js_or (get_prop ''recordset'' result) result
                in if \<not> truthy ticketRows \<or> get_prop ''length'' ticketRows = JNum 0
                   then (Status 404, db1, None)
                   else if nullish (at_index 0 ticketRows) then (Status 500, db1, None)
                   else
                     let ticketOwner = get_prop ''global_id'' (at_index 0 ticketRows)
                     in (case query (update_tickets (where_id ticketId)
                                       (set_completed_plain now)) db1 of
                           Inl err \<Rightarrow> (Status 500, db1, None)
                         | Inr (result2, db2) \<Rightarrow>
                             (Redirect ''/dashboard/planner'', db2,
                              Some (TicketMarkedCompleted ticketId, ticketOwner)))))"

subsection \<open>routes/planner.js\<close>

definition planner_assign :: "nat \<Rightarrow> jsval \<Rightarrow> (string \<times> jsval) list \<Rightarrow> database \<Rightarrow> outcome" where
  "planner_assign now user body db =
     (let ticketId = body_field ''ticketId'' body;
          executerId = body_field ''executerId'' body;
          assignerGlobalId = opt_prop ''globalId'' user;
          userRole = opt_prop ''role'' user;
          userLocation = opt_prop ''location'' user
      in if \<not> truthy ticketId \<or> \<not> truthy executerId then (Status 400, db, None)
         else
           (case query (update_tickets
                          (if \<not> (userRole = JStr ''admin'' \<and> userLocation = JStr ''Pune'')
                           then where_id_location ticketId userLocation
                           else where_id ticketId)
                          (set_assigned now executerId assignerGlobalId)) db of
              Inl err \<Rightarrow> (Status 500, db, None)
            | Inr (result, db') \<Rightarrow>
                if truthy (get_prop ''rowsAffected'' result) \<and>
                   at_index 0 (get_prop ''rowsAffected'' result) = JNum 0
                then (Status 404, db', None)
                else (Redirect ''/dashboard/planner'', db',
                      Some (TicketAssigned ticketId, executerId))))"

subsection \<open>routes/technician.js\<close>

definition getAffectedCount :: "jsval \<Rightarrow> jsval" where
  "getAffectedCount result =
     (if \<not> truthy result then JUndefined
      else if is_number (get_prop ''affectedRows'' result) then get_prop ''affectedRows'' result
      else if is_array (get_prop ''rowsAffected'' result) \<and>
              is_number (at_index 0 (get_prop ''rowsAffected'' result))
           then at_index 0 (get_prop ''rowsAffected'' result)
      else if is_number (get_prop ''rowsAffected'' result) then get_prop ''rowsAffected'' result
      else JUndefined)"

text \<open>
  \<^verbatim>\<open>req.user || req.session?.user || {}\<close>: \<^verbatim>\<open>app.js\<close> installs no session
  middleware, so \<^verbatim>\<open>req.session\<close> is undefined.
\<close>

definition session_user :: jsval where
  "session_user = JUndefined"

definition user_or_session :: "jsval \<Rightarrow> jsval" where
  "user_or_session user = js_or user (js_or session_user (JObj []))"

definition technician_start :: "nat \<Rightarrow> jsval \<Rightarrow> (string \<times> jsval) list \<Rightarrow> database \<Rightarrow> outcome" where
  "technician_start now user body db =
     (let ticketId = body_field ''ticketId'' body;
          role = get_prop ''role'' (user_or_session user);
          location = get_prop ''location'' (user_or_session user)
      in if \<not> truthy ticketId then (Status 400, db, None)
         else
           (case query (update_tickets
                          (if role \<noteq> JStr ''admin'' then where_id_location ticketId location
                           else where_id ticketId)
                          (set_started now)) db of
              Inl err \<Rightarrow> (Status 500, db, None)
            | Inr (reply, db1) \<Rightarrow>
                let result = at_index 0 reply;
                    affected = getAffectedCount result
                in if is_number affected \<and> affected = JNum 0 then (Status 404, db1, None)
                   else
                     (case query (select_global_id ticketId) db1 of
                        Inl err \<Rightarrow> (Status 500, db1, None)
                      | Inr (reply2, db2) \<Rightarrow>
                          let rows = at_index 0 reply2;
                              ticketCreatorId = opt_prop ''global_id'' (opt_index 0 rows)
                          in (Redirect ''/dashboard/technician'', db2,
                              if truthy ticketCreatorId
                              then Some (TicketStarted ticketId, ticketCreatorId)
                              else None))))"

definition technician_complete :: "nat \<Rightarrow> jsval \<Rightarrow> (string \<times> jsval) list \<Rightarrow> database \<Rightarrow> outcome" where
  "technician_complete now user body db =
     (let ticketId = body_field ''ticketId'' body;
          completion_note = body_field ''completion_note'' body;
          role = get_prop ''role'' (user_or_session user);
          location = get_prop ''location'' (user_or_session user)
      in if \<not> truthy ticketId then (Status 400, db, None)
         else
           (case query (update_tickets
                          (if role \<noteq> JStr ''admin'' then where_id_location ticketId location
                           else where_id ticketId)
                          (set_completed_noted now (js_or completion_note JNull))) db of
              Inl err \<Rightarrow> (Status 500, db, None)
            | Inr (reply, db1) \<Rightarrow>
                let result = at_index 0 reply;
                    affected = getAffectedCount result
                in if is_number affected \<and> affected = JNum 0 then (Status 404, db1, None)
                   else
                     (case query (select_global_id ticketId) db1 of
                        Inl err \<Rightarrow> (Status 500, db1, None)
                      | Inr (reply2, db2) \<Rightarrow>
                          let rows = at_index 0 reply2;
                              ticketCreatorId = opt_prop ''global_id'' (opt_index 0 rows)
                          in (Redirect ''/dashboard/technician'', db2,
                              if truthy ticketCreatorId
                              then Some (TicketCompletedByTechnician ticketId, ticketCreatorId)
                              else None))))"

subsection \<open>The routes: the role guard, then the handler\<close>

definition guarded ::
  "jsval list \<Rightarrow> (jsval \<Rightarrow> (string \<times> jsval) list \<Rightarrow> database \<Rightarrow> outcome) \<Rightarrow>
   jsval \<Rightarrow> (string \<times> jsval) list \<Rightarrow> database \<Rightarrow> outcome" where
  "guarded allowedRoles handler user body db =
     (case requireRole allowedRoles user of
        Some denied \<Rightarrow> (denied, db, None)
      | None \<Rightarrow> handler user body db)"

definition post_ticket_submit :: "nat \<Rightarrow> jsval \<Rightarrow> (string \<times> jsval) list \<Rightarrow> database \<Rightarrow> outcome" where
  "post_ticket_submit now =
     guarded [JStr ''normal_user'', JStr ''technician'', JStr ''planner'', JStr ''admin'']
       (ticket_submit now)"

definition post_ticket_assign :: "nat \<Rightarrow> jsval \<Rightarrow> (string \<times> jsval) list \<Rightarrow> database \<Rightarrow> outcome" where
  "post_ticket_assign now = guarded [JStr ''planner'', JStr ''admin''] (ticket_assign now)"

definition post_ticket_complete :: "nat \<Rightarrow> jsval \<Rightarrow> (string \<times> jsval) list \<Rightarrow> database \<Rightarrow> outcome" where
  "post_ticket_complete now =
     guarded [JStr ''technician'', JStr ''planner'', JStr ''admin''] (ticket_complete now)"

definition post_planner_assign :: "nat \<Rightarrow> jsval \<Rightarrow> (string \<times> jsval) list \<Rightarrow> database \<Rightarrow> outcome" where
  "post_planner_assign now = guarded [JStr ''planner'', JStr ''admin''] (planner_assign now)"

definition post_technician_start :: "nat \<Rightarrow> jsval \<Rightarrow> (string \<times> jsval) list \<Rightarrow> database \<Rightarrow> outcome" where
  "post_technician_start now =
     guarded [JStr ''technician'', JStr ''planner'', JStr ''admin''] (technician_start now)"

definition post_technician_complete :: "nat \<Rightarrow> jsval \<Rightarrow> (string \<times> jsval) list \<Rightarrow> database \<Rightarrow> outcome" where
  "post_technician_complete now =
     guarded [JStr ''technician'', JStr ''planner'', JStr ''admin''] (technician_complete now)"

section \<open>Example data\<close>

text \<open>
  A store that holds one open ticket raised in Pune, an empty store, and the decoded
  payloads of four callers, as \<^verbatim>\<open>/login\<close> signs them (\<^verbatim>\<open>role\<close> and
  \<^verbatim>\<open>department\<close> both hold the user's department).
\<close>

definition ticket_pune :: ticket where
  "ticket_pune =
     \<lparr>ticket_id = 1, global_id = JStr ''U1'', raised_by = JStr ''Uma'',
      category = JStr ''Other'', description = JStr ''Leaking tap'',
      building_no = JNull, area_code = JNull, sub_area = JNull, keyword = JNull,
      location = JStr ''Pune'', status = Open,
      assigned_to = JNull, planner_id = JNull, completion_note = JNull,
      created_at = 10, updated_at = 10, started_at = None, completed_at = None\<rparr>"

definition db_pune :: database where
  "db_pune = \<lparr>tickets = [ticket_pune], next_id = 2, online = True\<rparr>"

definition db_empty :: database where
  "db_empty = \<lparr>tickets = [], next_id = 1, online = True\<rparr>"

definition user_pune :: jsval where
  "user_pune =
     JObj [(''globalId'', JStr ''U1''), (''name'', JStr ''Uma''),
           (''department'', JStr ''normal_user''), (''role'', JStr ''normal_user''),
           (''location'', JStr ''Pune'')]"

definition technician_pune :: jsval where
  "technician_pune =
     JObj [(''globalId'', JStr ''T7''), (''name'', JStr ''Tara''),
           (''department'', JStr ''technician''), (''role'', JStr ''technician''),
           (''location'', JStr ''Pune'')]"

definition planner_mumbai :: jsval where
  "planner_mumbai =
     JObj [(''globalId'', JStr ''P9''), (''name'', JStr ''Pia''),
           (''department'', JStr ''planner''), (''role'', JStr ''planner''),
           (''location'', JStr ''Mumbai'')]"

definition admin_mumbai :: jsval where
  "admin_mumbai =
     JObj [(''globalId'', JStr ''A3''), (''name'', JStr ''Anil''),
           (''department'', JStr ''admin''), (''role'', JStr ''admin''),
           (''location'', JStr ''Mumbai'')]"

section \<open>What a query answers\<close>

text \<open>
  The answer of \<^verbatim>\<open>db.query\<close> is an array of two elements. For an update or an insert
  its first element, the record set, is undefined.
\<close>

lemma query_offline: "\<not> online db \<Longrightarrow> query statement db = Inl ConnectionError"
  by (simp add: query_def)

lemma query_update_online:
  "online db \<Longrightarrow>
   query (update_tickets wh st) db =
     Inr (JArr [JUndefined, mssql_result [] (length (filter wh (tickets db)))],
          db\<lparr>tickets := map (\<lambda>t. if wh t then st t else t) (tickets db)\<rparr>)"
  by (simp add: query_def update_tickets_def mssql_result_def)

lemma query_select_online:
  "online db \<Longrightarrow>
   query (select_global_id ticketId) db =
     Inr (JArr [JArr (map (\<lambda>t. JObj [(''global_id'', global_id t)])
                        (filter (where_id ticketId) (tickets db))),
                mssql_result [JArr (map (\<lambda>t. JObj [(''global_id'', global_id t)])
                        (filter (where_id ticketId) (tickets db)))]
                  (length (filter (where_id ticketId) (tickets db)))], db)"
  by (simp add: query_def select_global_id_def mssql_result_def Let_def)

lemma query_insert_online:
  "online db \<Longrightarrow>
   query (insert_ticket now p1 p2 p3 p4 p5 p6 p7 p8 p9) db =
     Inr (JArr [JUndefined, mssql_result [] 1], snd (insert_ticket now p1 p2 p3 p4 p5 p6 p7 p8 p9 db))"
  by (simp add: query_def insert_ticket_def mssql_result_def)

lemma getAffectedCount_undefined: "getAffectedCount JUndefined = JUndefined"
  by (simp add: getAffectedCount_def)

lemma first_row_creator:
  "opt_prop ''global_id'' (opt_index 0 (JArr (map (\<lambda>t. JObj [(''global_id'', global_id t)]) ts)))
   = (case ts of [] \<Rightarrow> JUndefined | t # ts' \<Rightarrow> global_id t)"
  by (cases ts) (simp_all add: opt_prop_def opt_index_def)

lemma map_update_frame:
  "(\<And>t. f (st t) = f t) \<Longrightarrow> map f (map (\<lambda>t. if wh t then st t else t) ts) = map f ts"
  by (induction ts) auto

lemma ticket_submit_outcome:
  "ticket_submit now user body db =
     (if \<not> truthy (opt_prop ''globalId'' user) then (Status 401, db, None)
      else if normalize_category (body_field ''category'' body) = JStr ''Facility Service'' \<and>
              (\<not> truthy (body_field ''building_no'' body) \<or> \<not> truthy (body_field ''area_code'' body) \<or>
               \<not> truthy (body_field ''sub_area'' body) \<or> \<not> truthy (body_field ''keyword'' body))
      then (RedirectQuery ''/dashboard/user'' ''error'' ''Missing required Facility Service fields.'',
            db, None)
      else if \<not> online db
      then (RedirectQuery ''/dashboard/user'' ''error'' ''Failed to submit ticket.'', db, None)
      else (RedirectQuery ''/dashboard/user'' ''message'' ''Ticket submitted successfully.'',
            snd (insert_ticket now
                   (get_prop ''globalId'' user)
                   (js_or (get_prop ''name'' user) JNull)
                   (normalize_category (body_field ''category'' body))
                   (js_or (body_field ''description'' body) JNull)
                   (js_or (body_field ''building_no'' body) JNull)
                   (js_or (body_field ''area_code'' body) JNull)
                   (js_or (body_field ''sub_area'' body) JNull)
                   (js_or (body_field ''keyword'' body) JNull)
                   (js_or (get_prop ''location'' user) JNull) db),
            Some (TicketSubmitted, get_prop ''globalId'' user)))"
  by (auto simp: ticket_submit_def Let_def query_offline query_insert_online)

lemma ticket_assign_outcome:
  "ticket_assign now user body db =
     (if \<not> truthy (body_field ''ticketId'' body) \<or> \<not> truthy (body_field ''executerId'' body)
      then (Status 400, db, None)
      else if \<not> online db then (Status 500, db, None)
      else (Redirect ''/dashboard/planner'',
            db\<lparr>tickets := map (\<lambda>t. if where_id (body_field ''ticketId'' body) t
                                    then set_assigned now (body_field ''executerId'' body)
                                           (opt_prop ''globalId'' user) t
                                    else t) (tickets db)\<rparr>,
            Some (TicketAssigned (body_field ''ticketId'' body), body_field ''executerId'' body)))"
  by (simp add: ticket_assign_def Let_def query_offline query_update_online)

lemma planner_assign_outcome:
  "planner_assign now user body db =
     (if \<not> truthy (body_field ''ticketId'' body) \<or> \<not> truthy (body_field ''executerId'' body)
      then (Status 400, db, None)
      else if \<not> online db then (Status 500, db, None)
      else (Redirect ''/dashboard/planner'',
            db\<lparr>tickets := map (\<lambda>t. if (if \<not> (opt_prop ''role'' user = JStr ''admin'' \<and>
                                              opt_prop ''location'' user = JStr ''Pune'')
                                        then where_id_location (body_field ''ticketId'' body)
                                               (opt_prop ''location'' user)
                                        else where_id (body_field ''ticketId'' body)) t
                                    then set_assigned now (body_field ''executerId'' body)
                                           (opt_prop ''globalId'' user) t
                                    else t) (tickets db)\<rparr>,
            Some (TicketAssigned (body_field ''ticketId'' body), body_field ''executerId'' body)))"
  by (simp add: planner_assign_def Let_def query_offline query_update_online)

lemma ticket_complete_outcome:
  "ticket_complete now user body db =
     (if \<not> truthy (body_field ''ticketId'' body) then (Status 400, db, None)
      else if \<not> online db then (Status 500, db, None)
      else (Redirect ''/dashboard/planner'',
            db\<lparr>tickets := map (\<lambda>t. if where_id (body_field ''ticketId'' body) t
                                    then set_completed_plain now t else t) (tickets db)\<rparr>,
            Some (TicketMarkedCompleted (body_field ''ticketId'' body), JUndefined)))"
  by (simp add: ticket_complete_def Let_def query_offline query_update_online
        query_select_online js_or_def)

lemma technician_start_response:
  "fst (technician_start now user body db) =
     (if \<not> truthy (body_field ''ticketId'' body) then Status 400
      else if \<not> online db then Status 500
      else Redirect ''/dashboard/technician'')"
  by (simp add: technician_start_def Let_def query_offline query_update_online
        query_select_online getAffectedCount_undefined)

lemma technician_start_store:
  "fst (snd (technician_start now user body db)) =
     (if \<not> truthy (body_field ''ticketId'' body) \<or> \<not> online db then db
      else db\<lparr>tickets :=
             map (\<lambda>t. if (if get_prop ''role'' (user_or_session user) \<noteq> JStr ''admin''
                           then where_id_location (body_field ''ticketId'' body)
                                  (get_prop ''location'' (user_or_session user))
                           else where_id (body_field ''ticketId'' body)) t
                       then set_started now t else t) (tickets db)\<rparr>)"
  by (simp add: technician_start_def Let_def query_offline query_update_online
        query_select_online getAffectedCount_undefined)

lemma technician_complete_response:
  "fst (technician_complete now user body db) =
     (if \<not> truthy (body_field ''ticketId'' body) then Status 400
      else if \<not> online db then Status 500
      else Redirect ''/dashboard/technician'')"
  by (simp add: technician_complete_def Let_def query_offline query_update_online
        query_select_online getAffectedCount_undefined)

lemma technician_complete_store:
  "fst (snd (technician_complete now user body db)) =
     (if \<not> truthy (body_field ''ticketId'' body) \<or> \<not> online db then db
      else db\<lparr>tickets :=
             map (\<lambda>t. if (if get_prop ''role'' (user_or_session user) \<noteq> JStr ''admin''
                           then where_id_location (body_field ''ticketId'' body)
                                  (get_prop ''location'' (user_or_session user))
                           else where_id (body_field ''ticketId'' body)) t
                       then set_completed_noted now (js_or (body_field ''completion_note'' body) JNull) t
                       else t) (tickets db)\<rparr>)"
  by (simp add: technician_complete_def Let_def query_offline query_update_online
        query_select_online getAffectedCount_undefined)

lemma guarded_store:
  "fst (snd (guarded allowedRoles handler user body db)) =
     (if requireRole allowedRoles user = None then fst (snd (handler user body db)) else db)"
  by (simp add: guarded_def split: option.splits)

lemma guarded_response:
  "fst (guarded allowedRoles handler user body db) =
     (case requireRole allowedRoles user of None \<Rightarrow> fst (handler user body db) | Some denied \<Rightarrow> denied)"
  by (simp add: guarded_def split: option.splits)

lemma guarded_pass:
  "requireRole allowedRoles user = None \<Longrightarrow> guarded allowedRoles handler user body db = handler user body db"
  by (simp add: guarded_def)

text \<open>
  With that answer none of the five transitions ever reaches its 404 branch: the
  handlers of \<^verbatim>\<open>routes/ticket.js\<close> and \<^verbatim>\<open>routes/planner.js\<close> read
  \<^verbatim>\<open>rowsAffected\<close> and \<^verbatim>\<open>recordset\<close> from the array itself, and
  \<^verbatim>\<open>getAffectedCount\<close> in \<^verbatim>\<open>routes/technician.js\<close> is handed the undefined record
  set of the update.
\<close>

lemma requireRole_answers:
  "requireRole allowed user = None \<or> requireRole allowed user = Some (Status 401) \<or>
   requireRole allowed user = Some (Status 403)"
  by (simp add: requireRole_def Let_def)

lemma guarded_never_404:
  "(\<And>user body db. fst (handler user body db) \<noteq> Status 404) \<Longrightarrow>
   fst (guarded allowed handler user body db) \<noteq> Status 404"
  using requireRole_answers [of allowed user]
  by (auto simp: guarded_def)

lemma transition_routes_never_answer_404:
  "fst (post_ticket_assign now user body db) \<noteq> Status 404 \<and>
   fst (post_planner_assign now user body db) \<noteq> Status 404 \<and>
   fst (post_technician_start now user body db) \<noteq> Status 404 \<and>
   fst (post_technician_complete now user body db) \<noteq> Status 404 \<and>
   fst (post_ticket_complete now user body db) \<noteq> Status 404"
  by (simp add: post_ticket_assign_def post_planner_assign_def post_technician_start_def
        post_technician_complete_def post_ticket_complete_def guarded_never_404
        ticket_assign_outcome planner_assign_outcome ticket_complete_outcome
        technician_start_response technician_complete_response)

lemmas example_defs =
  ticket_pune_def db_pune_def db_empty_def user_pune_def technician_pune_def
  planner_mumbai_def admin_mumbai_def

section \<open>The role guard\<close>

text \<open>
  C10. The guard takes as the caller's role the payload's \<^verbatim>\<open>role\<close> when that is
  present (truthy) and its \<^verbatim>\<open>department\<close> otherwise, and lets the request pass
  exactly when that value is among the allowed roles. So a payload without a
  \<^verbatim>\<open>role\<close> whose \<^verbatim>\<open>department\<close> is an allowed role is let through.
\<close>

theorem requireRole_role_then_department:
  assumes "truthy user"
  shows "requireRole allowedRoles user =
           (if array_includes allowedRoles
                 (if truthy (get_prop ''role'' user) then get_prop ''role'' user
                  else get_prop ''department'' user)
            then None else Some (Status 403))
         \<and> (get_prop ''role'' user = JUndefined \<and>
              array_includes allowedRoles (get_prop ''department'' user)
              \<longrightarrow> requireRole allowedRoles user = None)"
  using assms by (simp add: requireRole_def js_or_def)

theorem requireRole_role_then_department_witness:
  "truthy (JObj [(''department'', JStr ''planner'')]) \<and>
   get_prop ''role'' (JObj [(''department'', JStr ''planner'')]) = JUndefined \<and>
   array_includes [JStr ''planner'', JStr ''admin'']
     (get_prop ''department'' (JObj [(''department'', JStr ''planner'')])) \<and>
   requireRole [JStr ''planner'', JStr ''admin''] (JObj [(''department'', JStr ''planner'')]) = None"
  using requireRole_role_then_department
          [of "JObj [(''department'', JStr ''planner'')]" "[JStr ''planner'', JStr ''admin'']"]
  by (simp add: array_includes_def)

section \<open>Notification fan-out\<close>

lemma deliver_each_log:
  "deliver_each push message target subs log =
     \<lparr>attempts = attempts log @ map (\<lambda>sub. (sub, message)) subs,
      warnings = warnings log @
        concat (map (\<lambda>sub. case push sub message of
                               Delivered \<Rightarrow> []
                             | Failed err \<Rightarrow> [(target, err)]) subs)\<rparr>"
  by (induction subs arbitrary: log) (auto simp: attempt_delivery_def split: push_outcome.splits)

lemma warned_targets:
  "map fst (concat (map (\<lambda>sub. case push sub message of
                                  Delivered \<Rightarrow> []
                                | Failed err \<Rightarrow> [(target, err)]) subs)) =
   map (\<lambda>sub. target) (filter (\<lambda>sub. push sub message \<noteq> Delivered) subs)"
  by (induction subs) (auto split: push_outcome.splits)

text \<open>
  C9. Whatever the deliveries do, \<^verbatim>\<open>sendNotificationToUser\<close> returns normally, and it
  has attempted every endpoint stored for the target, in their order: a failed delivery
  leaves one warning behind and the loop goes on. For a target with no entry, or with
  an empty one, it returns with no attempt and no warning.
\<close>

theorem sendNotificationToUser_attempts_every_endpoint:
  "(\<exists>log. sendNotificationToUser push subscriptionsPerUser message target = Inr log \<and>
          map fst (attempts log) =
            (case subscriptionsPerUser target of Some subs \<Rightarrow> subs | None \<Rightarrow> []) \<and>
          map fst (warnings log) =
            map (\<lambda>sub. target)
              (filter (\<lambda>sub. push sub message \<noteq> Delivered)
                 (case subscriptionsPerUser target of Some subs \<Rightarrow> subs | None \<Rightarrow> [])))
   \<and> sendNotificationToUser push (subscriptionsPerUser(target := None)) message target =
       Inr \<lparr>attempts = [], warnings = []\<rparr>
   \<and> sendNotificationToUser push (subscriptionsPerUser(target \<mapsto> [])) message target =
       Inr \<lparr>attempts = [], warnings = []\<rparr>"
  by (simp add: sendNotificationToUser_def deliver_each_log warned_targets comp_def
        split: option.splits)

section \<open>Which token is verified\<close>

lemma split_on_no_separator: "c \<notin> set s \<Longrightarrow> split_on c s = [s]"
  by (induction s) auto

text \<open>
  C7, as the code has it. A request carries the header \<^verbatim>\<open>Bearer t\<close>, with \<open>t\<close> not empty
  and free of spaces, and a non-empty token cookie \<open>c\<close>. The shared middleware
  \<^verbatim>\<open>middleware/authenticateJWT.js\<close> verifies the header's token \<open>t\<close>. The middleware
  of \<^verbatim>\<open>routes/technician.js\<close> and the one of \<^verbatim>\<open>app.js\<close> verify the cookie \<open>c\<close>.
\<close>

theorem token_precedence_by_middleware:
  assumes "t \<noteq> []" and "CHR '' '' \<notin> set t" and "c \<noteq> []"
  shows "select_token_middleware (Some (''Bearer '' @ t)) (Some c) = Some t \<and>
         authenticateJWT_middleware verify (Some (''Bearer '' @ t)) (Some c) =
           check_token verify 403 (Some t) \<and>
         select_token_technician (Some (''Bearer '' @ t)) (Some c) = Some c \<and>
         authenticateJWT_technician verify (Some (''Bearer '' @ t)) (Some c) =
           check_token verify 401 (Some c) \<and>
         select_token_app (Some (''Bearer '' @ t)) (Some c) = Some c"
  using assms
  by (simp add: select_token_middleware_def select_token_technician_def select_token_app_def
        authenticateJWT_middleware_def authenticateJWT_technician_def
        startsWith_def nth_opt_def split_on_no_separator)

theorem token_precedence_by_middleware_witness:
  "''hdr'' \<noteq> [] \<and> CHR '' '' \<notin> set ''hdr'' \<and> ''ck'' \<noteq> [] \<and>
   select_token_middleware (Some ''Bearer hdr'') (Some ''ck'') = Some ''hdr'' \<and>
   select_token_technician (Some ''Bearer hdr'') (Some ''ck'') = Some ''ck'' \<and>
   select_token_app (Some ''Bearer hdr'') (Some ''ck'') = Some ''ck''"
  using token_precedence_by_middleware [of "''hdr''" "''ck''"]
  by simp

text \<open>
  C7 as stated fails: with the header \<^verbatim>\<open>Bearer hdr\<close> and the cookie \<^verbatim>\<open>ck\<close>, the
  middleware of the technician routes selects \<^verbatim>\<open>ck\<close>, and the caller it lets through
  is the one the cookie names, not the one the header names.
\<close>

theorem cookie_verified_by_technician_routes:
  "select_token_technician (Some ''Bearer hdr'') (Some ''ck'') = Some ''ck'' \<and>
   select_token_app (Some ''Bearer hdr'') (Some ''ck'') = Some ''ck'' \<and>
   authenticateJWT_technician [''hdr'' \<mapsto> admin_mumbai, ''ck'' \<mapsto> user_pune]
     (Some ''Bearer hdr'') (Some ''ck'') = Inr user_pune"
  by (simp add: select_token_technician_def select_token_app_def authenticateJWT_technician_def
        check_token_def startsWith_def nth_opt_def)

section \<open>The location of a ticket\<close>

text \<open>
  C8. The row that a successful \<^verbatim>\<open>/ticket/submit\<close> appends holds as its location the
  value bound for \<^verbatim>\<open>user.location || null\<close>: for a caller whose payload holds a
  non-empty location string, that string. The rows already stored stay as they were.
  Each of the five transitions (\<^verbatim>\<open>/ticket/assign\<close>, \<^verbatim>\<open>/planner/assign\<close>,
  \<^verbatim>\<open>/technician/start\<close>, \<^verbatim>\<open>/technician/complete\<close>, \<^verbatim>\<open>/ticket/complete\<close>), for
  every caller, body and store, leaves the location of every row as it was.
\<close>

theorem location_set_at_creation_and_kept:
  "(\<forall>db' sent.
       post_ticket_submit now user body db =
         (RedirectQuery ''/dashboard/user'' ''message'' ''Ticket submitted successfully.'', db', sent)
       \<longrightarrow> (\<exists>t. tickets db' = tickets db @ [t] \<and>
                location t = bind_param (js_or (get_prop ''location'' user) JNull) \<and>
                (\<forall>l. get_prop ''location'' user = JStr l \<and> l \<noteq> [] \<longrightarrow> location t = JStr l)))
   \<and> map location (tickets (fst (snd (post_ticket_assign now user body db)))) = map location (tickets db)
   \<and> map location (tickets (fst (snd (post_planner_assign now user body db)))) = map location (tickets db)
   \<and> map location (tickets (fst (snd (post_technician_start now user body db)))) = map location (tickets db)
   \<and> map location (tickets (fst (snd (post_technician_complete now user body db)))) = map location (tickets db)
   \<and> map location (tickets (fst (snd (post_ticket_complete now user body db)))) = map location (tickets db)"
proof (intro conjI allI impI)
  fix db' sent
  assume a: "post_ticket_submit now user body db =
         (RedirectQuery ''/dashboard/user'' ''message'' ''Ticket submitted successfully.'', db', sent)"
  then have "ticket_submit now user body db =
         (RedirectQuery ''/dashboard/user'' ''message'' ''Ticket submitted successfully.'', db', sent)"
    by (auto simp: post_ticket_submit_def guarded_def requireRole_def split: option.splits if_splits)
  then show "\<exists>t. tickets db' = tickets db @ [t] \<and>
                location t = bind_param (js_or (get_prop ''location'' user) JNull) \<and>
                (\<forall>l. get_prop ''location'' user = JStr l \<and> l \<noteq> [] \<longrightarrow> location t = JStr l)"
    by (auto simp: ticket_submit_outcome insert_ticket_def js_or_def split: if_splits)
next
  show "map location (tickets (fst (snd (post_ticket_assign now user body db)))) = map location (tickets db)"
    by (simp add: post_ticket_assign_def guarded_store ticket_assign_outcome map_update_frame set_assigned_def)
next
  show "map location (tickets (fst (snd (post_planner_assign now user body db)))) = map location (tickets db)"
    by (simp add: post_planner_assign_def guarded_store planner_assign_outcome map_update_frame set_assigned_def)
next
  show "map location (tickets (fst (snd (post_technician_start now user body db)))) = map location (tickets db)"
    by (simp add: post_technician_start_def guarded_store technician_start_store map_update_frame set_started_def)
next
  show "map location (tickets (fst (snd (post_technician_complete now user body db)))) = map location (tickets db)"
    by (simp add: post_technician_complete_def guarded_store technician_complete_store map_update_frame set_completed_noted_def)
next
  show "map location (tickets (fst (snd (post_ticket_complete now user body db)))) = map location (tickets db)"
    by (simp add: post_ticket_complete_def guarded_store ticket_complete_outcome map_update_frame set_completed_plain_def)
qed


theorem location_set_at_creation_and_kept_witness:
  "get_prop ''location'' user_pune = JStr ''Pune'' \<and>
   post_ticket_submit 50 user_pune [(''category'', JStr ''Breakdown'')] db_pune =
     (RedirectQuery ''/dashboard/user'' ''message'' ''Ticket submitted successfully.'',
      snd (insert_ticket 50 (JStr ''U1'') (JStr ''Uma'') (JStr ''Breakdown'')
             JNull JNull JNull JNull JNull (JStr ''Pune'') db_pune),
      Some (TicketSubmitted, JStr ''U1'')) \<and>
   map location (tickets (snd (insert_ticket 50 (JStr ''U1'') (JStr ''Uma'') (JStr ''Breakdown'')
             JNull JNull JNull JNull JNull (JStr ''Pune'') db_pune))) = [JStr ''Pune'', JStr ''Pune''] \<and>
   map location (tickets (fst (snd (post_technician_start 60 technician_pune
                                      [(''ticketId'', JNum 1)] db_pune)))) = [JStr ''Pune'']"
  using location_set_at_creation_and_kept
          [where now = 50 and user = user_pune and body = "[(''category'', JStr ''Breakdown'')]"
             and db = db_pune]
        location_set_at_creation_and_kept
          [where now = 60 and user = technician_pune and body = "[(''ticketId'', JNum 1)]"
             and db = db_pune]
  by (simp add: post_ticket_submit_def guarded_def requireRole_def js_or_def array_includes_def
        ticket_submit_outcome normalize_category_def body_field_def opt_prop_def
        insert_ticket_def example_defs)

section \<open>Category and required fields of a new ticket\<close>

lemma role_admin_passes:
  "get_prop ''role'' user = JStr ''admin'' \<Longrightarrow> array_includes allowed (JStr ''admin'') \<Longrightarrow>
   requireRole allowed user = None"
  by (cases user) (auto simp: requireRole_def js_or_def split: if_splits)

lemma user_or_session_truthy: "truthy user \<Longrightarrow> user_or_session user = user"
  by (simp add: user_or_session_def js_or_def)

lemma requireRole_pass_truthy: "requireRole allowed user = None \<Longrightarrow> truthy user"
  by (auto simp: requireRole_def split: if_splits)

lemma opt_prop_truthy: "truthy user \<Longrightarrow> opt_prop k user = get_prop k user"
  by (cases user) (simp_all add: opt_prop_def)

lemma normalize_category_facility:
  "normalize_category c = JStr ''Facility Service'' \<longleftrightarrow>
     c = JStr ''Facility'' \<or> c = JStr ''Facility Service''"
  by (auto simp: normalize_category_def)

text \<open>
  For a category sent as the string \<^verbatim>\<open>Facility\<close> or \<^verbatim>\<open>Facility Service\<close>, a
  submission in which one of \<^verbatim>\<open>building_no\<close>, \<^verbatim>\<open>area_code\<close>, \<^verbatim>\<open>sub_area\<close>,
  \<^verbatim>\<open>keyword\<close> is falsy leaves the store as it was, and a caller who passes the role
  guard and has a \<^verbatim>\<open>globalId\<close> gets the redirect that carries the validation error.
\<close>

lemma string_category_fields_checked:
  assumes "normalize_category (body_field ''category'' body) = JStr ''Facility Service''"
      and "\<not> truthy (body_field ''building_no'' body) \<or> \<not> truthy (body_field ''area_code'' body) \<or>
           \<not> truthy (body_field ''sub_area'' body) \<or> \<not> truthy (body_field ''keyword'' body)"
  shows "fst (snd (post_ticket_submit now user body db)) = db \<and>
         (requireRole [JStr ''normal_user'', JStr ''technician'', JStr ''planner'', JStr ''admin''] user = None \<and>
          truthy (opt_prop ''globalId'' user)
          \<longrightarrow> post_ticket_submit now user body db =
                (RedirectQuery ''/dashboard/user'' ''error''
                   ''Missing required Facility Service fields.'', db, None))"
  using assms
  by (auto simp: post_ticket_submit_def guarded_store guarded_pass ticket_submit_outcome)

text \<open>
  The check tests truthiness, and an empty array is truthy: with the four fields sent
  as empty arrays the row is created, and each of them is stored as the empty string.
\<close>

lemma empty_array_field_passes_check:
  "post_ticket_submit 50 user_pune
     [(''category'', JStr ''Facility Service''), (''building_no'', JArr []), (''area_code'', JArr []),
      (''sub_area'', JArr []), (''keyword'', JArr [])] db_empty =
   (RedirectQuery ''/dashboard/user'' ''message'' ''Ticket submitted successfully.'',
    snd (insert_ticket 50 (JStr ''U1'') (JStr ''Uma'') (JStr ''Facility Service'') JNull
           (JStr '''') (JStr '''') (JStr '''') (JStr '''') (JStr ''Pune'') db_empty),
    Some (TicketSubmitted, JStr ''U1''))"
  by code_simp

text \<open>
  C5, the defect. The body parsers deliver arrays (\<^verbatim>\<open>category[]=Facility Service\<close>).
  The array is not \<^verbatim>\<open>===\<close> to either string, so the category is not normalized and
  the check of the required fields is skipped; the binding then stores
  \<^verbatim>\<open>String(val)\<close>, which is \<^verbatim>\<open>Facility Service\<close>. For a caller who passes the role
  guard and has a \<^verbatim>\<open>globalId\<close>, on a reachable store, the answer is the redirect of
  success and a row of category \<^verbatim>\<open>Facility Service\<close> is appended, whatever the four
  fields hold.
\<close>

theorem array_category_skips_field_check:
  assumes "requireRole [JStr ''normal_user'', JStr ''technician'', JStr ''planner'', JStr ''admin''] user = None"
      and "truthy (opt_prop ''globalId'' user)"
      and "online db"
      and "body_field ''category'' body = JArr [JStr ''Facility Service'']"
  shows "fst (post_ticket_submit now user body db) =
           RedirectQuery ''/dashboard/user'' ''message'' ''Ticket submitted successfully.'' \<and>
         (\<exists>t. tickets (fst (snd (post_ticket_submit now user body db))) = tickets db @ [t] \<and>
              category t = JStr ''Facility Service'' \<and>
              building_no t = bind_param (js_or (body_field ''building_no'' body) JNull) \<and>
              area_code t = bind_param (js_or (body_field ''area_code'' body) JNull) \<and>
              sub_area t = bind_param (js_or (body_field ''sub_area'' body) JNull) \<and>
              keyword t = bind_param (js_or (body_field ''keyword'' body) JNull))"
  using assms
  by (simp add: post_ticket_submit_def guarded_pass ticket_submit_outcome normalize_category_def
        insert_ticket_def)

text \<open>
  The failing input: the category sent as a one-element array and none of the four
  fields. The row is created with the four columns NULL.
\<close>

theorem array_category_skips_field_check_witness:
  "requireRole [JStr ''normal_user'', JStr ''technician'', JStr ''planner'', JStr ''admin''] user_pune = None \<and>
   truthy (opt_prop ''globalId'' user_pune) \<and> online db_empty \<and>
   body_field ''category'' [(''category'', JArr [JStr ''Facility Service''])] =
     JArr [JStr ''Facility Service''] \<and>
   fst (post_ticket_submit 50 user_pune [(''category'', JArr [JStr ''Facility Service''])] db_empty) =
     RedirectQuery ''/dashboard/user'' ''message'' ''Ticket submitted successfully.'' \<and>
   map category (tickets (fst (snd (post_ticket_submit 50 user_pune
          [(''category'', JArr [JStr ''Facility Service''])] db_empty)))) = [JStr ''Facility Service''] \<and>
   map building_no (tickets (fst (snd (post_ticket_submit 50 user_pune
          [(''category'', JArr [JStr ''Facility Service''])] db_empty)))) = [JNull] \<and>
   map area_code (tickets (fst (snd (post_ticket_submit 50 user_pune
          [(''category'', JArr [JStr ''Facility Service''])] db_empty)))) = [JNull] \<and>
   map sub_area (tickets (fst (snd (post_ticket_submit 50 user_pune
          [(''category'', JArr [JStr ''Facility Service''])] db_empty)))) = [JNull] \<and>
   map keyword (tickets (fst (snd (post_ticket_submit 50 user_pune
          [(''category'', JArr [JStr ''Facility Service''])] db_empty)))) = [JNull]"
  using array_category_skips_field_check
          [where user = user_pune and db = db_empty and now = 50
             and body = "[(''category'', JArr [JStr ''Facility Service''])]"]
  by (simp add: post_ticket_submit_def guarded_def requireRole_def js_or_def array_includes_def
        ticket_submit_outcome normalize_category_def body_field_def opt_prop_def
        insert_ticket_def example_defs)

text \<open>
  C6, as the code has it. In the row a successful \<^verbatim>\<open>/ticket/submit\<close> appends, an absent
  or empty (falsy) category is stored as \<^verbatim>\<open>Other\<close>, \<^verbatim>\<open>Facility\<close> is stored as
  \<^verbatim>\<open>Facility Service\<close>, and every other non-empty category string is stored as it
  was sent, whether one of the known categories or not.
\<close>

theorem category_stored_by_submit:
  assumes "post_ticket_submit now user body db =
             (RedirectQuery ''/dashboard/user'' ''message'' ''Ticket submitted successfully.'', db', sent)"
  shows "\<exists>t. tickets db' = tickets db @ [t] \<and>
             (\<not> truthy (body_field ''category'' body) \<longrightarrow> category t = JStr ''Other'') \<and>
             (body_field ''category'' body = JStr ''Facility'' \<longrightarrow> category t = JStr ''Facility Service'') \<and>
             (\<forall>s. body_field ''category'' body = JStr s \<and> s \<noteq> [] \<and> s \<noteq> ''Facility''
                  \<longrightarrow> category t = JStr s) \<and>
             (truthy (body_field ''category'' body) \<and> body_field ''category'' body \<noteq> JStr ''Facility''
                  \<longrightarrow> category t = bind_param (body_field ''category'' body))"
proof -
  from assms have "ticket_submit now user body db =
         (RedirectQuery ''/dashboard/user'' ''message'' ''Ticket submitted successfully.'', db', sent)"
    by (auto simp: post_ticket_submit_def guarded_def requireRole_def split: option.splits if_splits)
  then show ?thesis
    by (auto simp: ticket_submit_outcome insert_ticket_def normalize_category_def split: if_splits)
qed

theorem category_stored_by_submit_witness:
  "post_ticket_submit 50 user_pune [(''category'', JStr ''Facility''), (''building_no'', JStr ''B1''),
       (''area_code'', JStr ''A2''), (''sub_area'', JStr ''S3''), (''keyword'', JStr ''tap'')] db_empty =
     (RedirectQuery ''/dashboard/user'' ''message'' ''Ticket submitted successfully.'',
      snd (insert_ticket 50 (JStr ''U1'') (JStr ''Uma'') (JStr ''Facility Service'') JNull
             (JStr ''B1'') (JStr ''A2'') (JStr ''S3'') (JStr ''tap'') (JStr ''Pune'') db_empty),
      Some (TicketSubmitted, JStr ''U1'')) \<and>
   map category (tickets (snd (insert_ticket 50 (JStr ''U1'') (JStr ''Uma'') (JStr ''Facility Service'') JNull
             (JStr ''B1'') (JStr ''A2'') (JStr ''S3'') (JStr ''tap'') (JStr ''Pune'') db_empty)))
     = [JStr ''Facility Service'']"
  using category_stored_by_submit
          [of 50 user_pune "[(''category'', JStr ''Facility''), (''building_no'', JStr ''B1''),
       (''area_code'', JStr ''A2''), (''sub_area'', JStr ''S3''), (''keyword'', JStr ''tap'')]" db_empty]
  by (simp add: post_ticket_submit_def guarded_def requireRole_def js_or_def array_includes_def
        ticket_submit_outcome normalize_category_def body_field_def opt_prop_def
        insert_ticket_def example_defs)

text \<open>
  C6 as stated fails: the category \<^verbatim>\<open>Plumbing\<close> is none of the known ones, and the row
  created for it holds \<^verbatim>\<open>Plumbing\<close>, not \<^verbatim>\<open>Other\<close>.
\<close>

theorem unrecognized_category_stored_as_given:
  "map category (tickets (fst (snd (post_ticket_submit 50 user_pune
                                      [(''category'', JStr ''Plumbing'')] db_empty))))
     = [JStr ''Plumbing'']"
  by (simp add: post_ticket_submit_def guarded_def requireRole_def js_or_def array_includes_def
        ticket_submit_outcome normalize_category_def body_field_def opt_prop_def
        insert_ticket_def example_defs)

section \<open>The location scope of the transitions\<close>

text \<open>
  C1, the defect. \<^verbatim>\<open>/ticket/assign\<close> updates by id alone: for every caller the role
  guard lets through, it answers with the redirect of success and assigns the ticket of
  the requested id, wherever that ticket and the caller are located.
\<close>

theorem ticket_assign_has_no_location_filter:
  assumes "requireRole [JStr ''planner'', JStr ''admin''] user = None"
      and "online db"
      and "truthy (body_field ''ticketId'' body)" and "truthy (body_field ''executerId'' body)"
  shows "fst (post_ticket_assign now user body db) = Redirect ''/dashboard/planner'' \<and>
         length (tickets (fst (snd (post_ticket_assign now user body db)))) = length (tickets db) \<and>
         (\<forall>i < length (tickets db).
            where_id (body_field ''ticketId'' body) (tickets db ! i) \<longrightarrow>
            status (tickets (fst (snd (post_ticket_assign now user body db))) ! i) = Assigned \<and>
            assigned_to (tickets (fst (snd (post_ticket_assign now user body db))) ! i) =
              bind_param (body_field ''executerId'' body))"
  using assms
  by (simp add: post_ticket_assign_def guarded_pass ticket_assign_outcome set_assigned_def)

text \<open>
  The failing input: a planner of Mumbai assigns ticket 1 of Pune. \<^verbatim>\<open>/ticket/assign\<close>
  assigns it. \<^verbatim>\<open>/planner/assign\<close>, which adds the location filter, leaves the
  ticket alone, but answers with the same redirect and notifies the technician: it
  looks for \<^verbatim>\<open>rowsAffected\<close> on the array that \<^verbatim>\<open>db.query\<close> returns, where there is
  none.
\<close>

theorem ticket_assign_has_no_location_filter_witness:
  "requireRole [JStr ''planner'', JStr ''admin''] planner_mumbai = None \<and>
   get_prop ''location'' planner_mumbai = JStr ''Mumbai'' \<and>
   map location (tickets db_pune) = [JStr ''Pune''] \<and>
   post_ticket_assign 50 planner_mumbai [(''ticketId'', JStr ''1''), (''executerId'', JStr ''T7'')] db_pune =
     (Redirect ''/dashboard/planner'',
      db_pune\<lparr>tickets := [ticket_pune\<lparr>assigned_to := JStr ''T7'', planner_id := JStr ''P9'',
                                         status := Assigned, updated_at := 50\<rparr>]\<rparr>,
      Some (TicketAssigned (JStr ''1''), JStr ''T7'')) \<and>
   post_planner_assign 50 planner_mumbai [(''ticketId'', JStr ''1''), (''executerId'', JStr ''T7'')] db_pune =
     (Redirect ''/dashboard/planner'', db_pune, Some (TicketAssigned (JStr ''1''), JStr ''T7''))"
  using ticket_assign_has_no_location_filter
          [of planner_mumbai db_pune "[(''ticketId'', JStr ''1''), (''executerId'', JStr ''T7'')]" 50]
  by (simp add: post_ticket_assign_def post_planner_assign_def guarded_def requireRole_def js_or_def
        array_includes_def ticket_assign_outcome planner_assign_outcome body_field_def opt_prop_def
        where_id_def where_id_location_def sql_eq_id_def decimal.simps digit_char_def sql_eq_def set_assigned_def example_defs)

text \<open>
  C2, as the code has it. \<^verbatim>\<open>/technician/start\<close> and \<^verbatim>\<open>/technician/complete\<close> add the
  location filter for every caller whose \<^verbatim>\<open>role\<close> is not \<^verbatim>\<open>admin\<close>: a ticket whose
  location is not the caller's stays as it was. For a caller whose \<^verbatim>\<open>role\<close> is
  \<^verbatim>\<open>admin\<close>, of whatever location, no filter is added: the ticket of the requested id
  is started, or completed, wherever it is located.
\<close>

theorem technician_routes_filter_non_admins_only:
  "(get_prop ''role'' user = JStr ''admin'' \<and> online db \<and> truthy (body_field ''ticketId'' body)
      \<longrightarrow> (\<forall>i < length (tickets db).
             where_id (body_field ''ticketId'' body) (tickets db ! i) \<longrightarrow>
             status (tickets (fst (snd (post_technician_start now user body db))) ! i) = InProgress \<and>
             status (tickets (fst (snd (post_technician_complete now user body db))) ! i) = Completed))
   \<and> (get_prop ''role'' user \<noteq> JStr ''admin''
      \<longrightarrow> length (tickets (fst (snd (post_technician_start now user body db)))) = length (tickets db) \<and>
          length (tickets (fst (snd (post_technician_complete now user body db)))) = length (tickets db) \<and>
          (\<forall>i < length (tickets db).
             \<not> sql_eq (location (tickets db ! i)) (get_prop ''location'' user) \<longrightarrow>
             tickets (fst (snd (post_technician_start now user body db))) ! i = tickets db ! i \<and>
             tickets (fst (snd (post_technician_complete now user body db))) ! i = tickets db ! i))"
proof (intro conjI impI)
  assume a: "get_prop ''role'' user = JStr ''admin'' \<and> online db \<and> truthy (body_field ''ticketId'' body)"
  then have g: "requireRole [JStr ''technician'', JStr ''planner'', JStr ''admin''] user = None"
    by (simp add: role_admin_passes array_includes_def)
  then have u: "user_or_session user = user"
    by (simp add: requireRole_pass_truthy user_or_session_truthy)
  from a g u show "\<forall>i < length (tickets db).
             where_id (body_field ''ticketId'' body) (tickets db ! i) \<longrightarrow>
             status (tickets (fst (snd (post_technician_start now user body db))) ! i) = InProgress \<and>
             status (tickets (fst (snd (post_technician_complete now user body db))) ! i) = Completed"
    by (simp add: post_technician_start_def post_technician_complete_def guarded_store
          technician_start_store technician_complete_store set_started_def set_completed_noted_def)
next
  assume a: "get_prop ''role'' user \<noteq> JStr ''admin''"
  show "length (tickets (fst (snd (post_technician_start now user body db)))) = length (tickets db)"
    by (simp add: post_technician_start_def guarded_store technician_start_store)
  show "length (tickets (fst (snd (post_technician_complete now user body db)))) = length (tickets db)"
    by (simp add: post_technician_complete_def guarded_store technician_complete_store)
  show "\<forall>i < length (tickets db).
             \<not> sql_eq (location (tickets db ! i)) (get_prop ''location'' user) \<longrightarrow>
             tickets (fst (snd (post_technician_start now user body db))) ! i = tickets db ! i \<and>
             tickets (fst (snd (post_technician_complete now user body db))) ! i = tickets db ! i"
  proof (cases "requireRole [JStr ''technician'', JStr ''planner'', JStr ''admin''] user = None")
    case True
    then have u: "user_or_session user = user"
      by (simp add: requireRole_pass_truthy user_or_session_truthy)
    with a True show ?thesis
      by (simp add: post_technician_start_def post_technician_complete_def guarded_store
            technician_start_store technician_complete_store where_id_location_def)
  next
    case False
    then show ?thesis
      by (auto simp: post_technician_start_def post_technician_complete_def guarded_store)
  qed
qed

theorem technician_routes_filter_non_admins_only_witness:
  "get_prop ''role'' admin_mumbai = JStr ''admin'' \<and> online db_pune \<and>
   truthy (body_field ''ticketId'' [(''ticketId'', JNum 1)]) \<and>
   where_id (body_field ''ticketId'' [(''ticketId'', JNum 1)]) (tickets db_pune ! 0) \<and>
   status (tickets (fst (snd (post_technician_start 50 admin_mumbai [(''ticketId'', JNum 1)] db_pune))) ! 0)
     = InProgress \<and>
   get_prop ''role'' planner_mumbai \<noteq> JStr ''admin'' \<and>
   \<not> sql_eq (location (tickets db_pune ! 0)) (get_prop ''location'' planner_mumbai) \<and>
   tickets (fst (snd (post_technician_start 50 planner_mumbai [(''ticketId'', JNum 1)] db_pune))) ! 0
     = tickets db_pune ! 0"
  using technician_routes_filter_non_admins_only
          [of admin_mumbai db_pune "[(''ticketId'', JNum 1)]" 50]
        technician_routes_filter_non_admins_only
          [of planner_mumbai db_pune "[(''ticketId'', JNum 1)]" 50]
  by (simp add: body_field_def where_id_def sql_eq_id_def sql_eq_def example_defs)

text \<open>
  C2 as stated fails: an admin of Mumbai, which is not the headquarters, starts and
  completes ticket 1 of Pune; the answer is the redirect of success and the ticket has
  changed.
\<close>

theorem admin_elsewhere_starts_ticket_of_other_location:
  "get_prop ''role'' admin_mumbai = JStr ''admin'' \<and>
   get_prop ''location'' admin_mumbai = JStr ''Mumbai'' \<and>
   map location (tickets db_pune) = [JStr ''Pune''] \<and>
   post_technician_start 50 admin_mumbai [(''ticketId'', JNum 1)] db_pune =
     (Redirect ''/dashboard/technician'',
      db_pune\<lparr>tickets := [ticket_pune\<lparr>status := InProgress, started_at := Some 50,
                                         updated_at := 50\<rparr>]\<rparr>,
      Some (TicketStarted (JNum 1), JStr ''U1'')) \<and>
   post_technician_complete 50 admin_mumbai [(''ticketId'', JNum 1)] db_pune =
     (Redirect ''/dashboard/technician'',
      db_pune\<lparr>tickets := [ticket_pune\<lparr>status := Completed, updated_at := 50,
                                         completed_at := Some 50\<rparr>]\<rparr>,
      Some (TicketCompletedByTechnician (JNum 1), JStr ''U1''))"
  by code_simp

section \<open>Status and completion time\<close>

text \<open>
  C3, as the code has it. No transition reads the status of the ticket. For a caller the
  role guard lets through, a reachable store and a request that names a ticket,
  \<^verbatim>\<open>/technician/start\<close>, \<^verbatim>\<open>/technician/complete\<close> and \<^verbatim>\<open>/ticket/complete\<close> answer
  with the redirect of success; a ticket of the requested id within the caller's scope
  ends \<^verbatim>\<open>In Progress\<close> after a start and \<^verbatim>\<open>Completed\<close> after a complete, whatever its
  status was.
\<close>

theorem transitions_ignore_current_status:
  assumes "requireRole [JStr ''technician'', JStr ''planner'', JStr ''admin''] user = None"
      and "online db" and "truthy (body_field ''ticketId'' body)"
  shows "fst (post_technician_start now user body db) = Redirect ''/dashboard/technician'' \<and>
         fst (post_technician_complete now user body db) = Redirect ''/dashboard/technician'' \<and>
         fst (post_ticket_complete now user body db) = Redirect ''/dashboard/planner'' \<and>
         (\<forall>i < length (tickets db).
            where_id (body_field ''ticketId'' body) (tickets db ! i) \<and>
            (get_prop ''role'' user = JStr ''admin'' \<or>
             sql_eq (location (tickets db ! i)) (get_prop ''location'' user)) \<longrightarrow>
            status (tickets (fst (snd (post_technician_start now user body db))) ! i) = InProgress \<and>
            status (tickets (fst (snd (post_technician_complete now user body db))) ! i) = Completed \<and>
            status (tickets (fst (snd (post_ticket_complete now user body db))) ! i) = Completed)"
proof -
  have u: "user_or_session user = user"
    using assms(1) by (simp add: requireRole_pass_truthy user_or_session_truthy)
  show ?thesis
    using assms u
    by (auto simp: post_technician_start_def post_technician_complete_def post_ticket_complete_def
          guarded_pass technician_start_response technician_complete_response
          technician_start_store technician_complete_store ticket_complete_outcome
          where_id_def where_id_location_def set_started_def set_completed_noted_def
          set_completed_plain_def)
qed

theorem transitions_ignore_current_status_witness:
  "requireRole [JStr ''technician'', JStr ''planner'', JStr ''admin''] technician_pune = None \<and>
   online (db_pune\<lparr>tickets := [ticket_pune\<lparr>status := Completed\<rparr>]\<rparr>) \<and>
   truthy (body_field ''ticketId'' [(''ticketId'', JNum 1)]) \<and>
   where_id (body_field ''ticketId'' [(''ticketId'', JNum 1)]) (ticket_pune\<lparr>status := Completed\<rparr>) \<and>
   sql_eq (location (ticket_pune\<lparr>status := Completed\<rparr>)) (get_prop ''location'' technician_pune) \<and>
   status (tickets (fst (snd (post_technician_start 50 technician_pune [(''ticketId'', JNum 1)]
             (db_pune\<lparr>tickets := [ticket_pune\<lparr>status := Completed\<rparr>]\<rparr>)))) ! 0) = InProgress"
  using transitions_ignore_current_status
          [of technician_pune "db_pune\<lparr>tickets := [ticket_pune\<lparr>status := Completed\<rparr>]\<rparr>"
              "[(''ticketId'', JNum 1)]" 50]
  by (simp add: requireRole_def js_or_def array_includes_def body_field_def where_id_def sql_eq_id_def sql_eq_def
        example_defs)

text \<open>
  C3 as stated fails: a technician completes ticket 1 while it is \<^verbatim>\<open>Open\<close>, and then
  starts it again, which moves it from \<^verbatim>\<open>Completed\<close> back to \<^verbatim>\<open>In Progress\<close>.
\<close>

theorem start_moves_completed_ticket_back:
  "post_technician_complete 40 technician_pune [(''ticketId'', JNum 1)] db_pune =
     (Redirect ''/dashboard/technician'',
      db_pune\<lparr>tickets := [ticket_pune\<lparr>status := Completed, updated_at := 40,
                                         completed_at := Some 40\<rparr>]\<rparr>,
      Some (TicketCompletedByTechnician (JNum 1), JStr ''U1'')) \<and>
   post_technician_start 50 technician_pune [(''ticketId'', JNum 1)]
      (db_pune\<lparr>tickets := [ticket_pune\<lparr>status := Completed, updated_at := 40,
                                          completed_at := Some 40\<rparr>]\<rparr>) =
     (Redirect ''/dashboard/technician'',
      db_pune\<lparr>tickets := [ticket_pune\<lparr>status := InProgress, updated_at := 50,
                                         started_at := Some 50, completed_at := Some 40\<rparr>]\<rparr>,
      Some (TicketStarted (JNum 1), JStr ''U1''))"
  by code_simp

text \<open>
  C4, the defect. \<^verbatim>\<open>/ticket/complete\<close> sets the status to \<^verbatim>\<open>Completed\<close> and leaves the
  column \<^verbatim>\<open>completed_at\<close> of every row as it was: for a caller the role guard lets
  through it answers with the redirect of success, yet the completion time is not set.
\<close>

theorem ticket_complete_leaves_completed_at:
  assumes "requireRole [JStr ''technician'', JStr ''planner'', JStr ''admin''] user = None"
      and "online db" and "truthy (body_field ''ticketId'' body)"
  shows "fst (post_ticket_complete now user body db) = Redirect ''/dashboard/planner'' \<and>
         map completed_at (tickets (fst (snd (post_ticket_complete now user body db)))) =
           map completed_at (tickets db) \<and>
         (\<forall>i < length (tickets db).
            where_id (body_field ''ticketId'' body) (tickets db ! i) \<longrightarrow>
            status (tickets (fst (snd (post_ticket_complete now user body db))) ! i) = Completed)"
  using assms
  by (simp add: post_ticket_complete_def guarded_pass ticket_complete_outcome map_update_frame
        set_completed_plain_def)

text \<open>
  The failing input: a technician completes the open ticket 1 through
  \<^verbatim>\<open>/ticket/complete\<close>. It ends \<^verbatim>\<open>Completed\<close> with no completion time.
\<close>

theorem ticket_complete_leaves_completed_at_witness:
  "requireRole [JStr ''technician'', JStr ''planner'', JStr ''admin''] technician_pune = None \<and>
   online db_pune \<and> truthy (body_field ''ticketId'' [(''ticketId'', JStr ''1'')]) \<and>
   post_ticket_complete 50 technician_pune [(''ticketId'', JStr ''1'')] db_pune =
     (Redirect ''/dashboard/planner'',
      db_pune\<lparr>tickets := [ticket_pune\<lparr>status := Completed, updated_at := 50\<rparr>]\<rparr>,
      Some (TicketMarkedCompleted (JStr ''1''), JUndefined)) \<and>
   completed_at (ticket_pune\<lparr>status := Completed, updated_at := 50\<rparr>) = None"
  using ticket_complete_leaves_completed_at
          [of technician_pune db_pune "[(''ticketId'', JStr ''1'')]" 50]
  by (simp add: post_ticket_complete_def guarded_def requireRole_def js_or_def array_includes_def
        ticket_complete_outcome body_field_def where_id_def sql_eq_id_def decimal.simps digit_char_def sql_eq_def set_completed_plain_def
        example_defs)

end
